theory Spec2Isabelle
  imports Main
begin

section \<open>Requests, sessions and outcomes\<close>

text \<open>
  The composition root \<^verbatim>\<open>src/index.js\<close> installs two middleware functions of its own
  (the conditional CSRF gate and the return-to tracker), a route table, a handful of
  inline redirect handlers and a start-up block that connects to MongoDB.  Everything
  else is a third-party library (express, lusca, passport, multer, mongoose) or a module
  of the application that is not part of the sources at hand (the controllers and
  \<^verbatim>\<open>config/passport\<close>).

  A request is modelled as it looks once \<^verbatim>\<open>passport.session()\<close> has run: \<^verbatim>\<open>req.user\<close> is
  either absent or the principal.  \<^verbatim>\<open>req.session\<close> is threaded through explicitly.
\<close>

datatype http_method = GET | POST | HEAD | PUT | DELETE | PATCH | OPTIONS

text \<open>
  The shape of the principal is not defined by \<^verbatim>\<open>index.js\<close>, which only tests
  \<^verbatim>\<open>req.user\<close> for truthiness.  The single field below exists for the authorization gate:
  \<open>token_for u p\<close> says whether \<open>u\<close> holds a valid access token for the third-party
  service that the route at path \<open>p\<close> targets.
\<close>

record principal =
  token_for :: "string \<Rightarrow> bool"

record request =
  req_method :: http_method
  path :: string
  user :: "principal option"

record session =
  returnTo :: "string option"

datatype response =
    Redirect string
  | Handled string string
  | GateDiverted string
  | StaticFile string
  | ErrorPage string
  | NotFound

text \<open>
  A middleware function or route handler either calls \<^verbatim>\<open>next()\<close>, ends the request with
  a response, or calls \<^verbatim>\<open>next(err)\<close>.
\<close>

datatype outcome = Next | Respond response | Raise string

text \<open>
  The behaviour of the third-party functions the file delegates to is a parameter of the
  model: \<^verbatim>\<open>lusca.csrf()\<close>, \<^verbatim>\<open>passport.authenticate\<close>, \<^verbatim>\<open>passport.authorize\<close>,
  \<^verbatim>\<open>upload.single\<close> of multer, and \<^verbatim>\<open>express.static\<close>.
\<close>

type_synonym options = "(string \<times> string list) list"

record ext =
  lusca_csrf :: "request \<Rightarrow> outcome"
  passport_authenticate :: "string \<Rightarrow> options \<Rightarrow> request \<Rightarrow> outcome"
  passport_authorize :: "string \<Rightarrow> options \<Rightarrow> request \<Rightarrow> outcome"
  multer_single :: "string \<Rightarrow> request \<Rightarrow> outcome"
  express_static :: "request \<Rightarrow> outcome"

section \<open>JavaScript helpers\<close>

text \<open>
  \<^verbatim>\<open>a || b\<close> on a value that is \<^verbatim>\<open>undefined\<close> or a string: \<^verbatim>\<open>undefined\<close> and the empty
  string are falsy.
\<close>

fun js_or :: "string option \<Rightarrow> string \<Rightarrow> string" where
  "js_or None d = d"
| "js_or (Some v) d = (if v = [] then d else v)"

fun js_or_undefined :: "string option \<Rightarrow> string option \<Rightarrow> string option" where
  "js_or_undefined None b = b"
| "js_or_undefined (Some v) b = (if v = [] then b else Some v)"

text \<open>\<^verbatim>\<open>req.path.match(/^\/auth/)\<close> and \<^verbatim>\<open>req.path.match(/\./)\<close>, read for truthiness.\<close>

definition match_auth :: "string \<Rightarrow> bool" where
  "match_auth p = (take 5 p = ''/auth'')"

definition match_dot :: "string \<Rightarrow> bool" where
  "match_dot p = (CHR ''.'' \<in> set p)"

section \<open>The conditional CSRF middleware (lines 91-97)\<close>

text \<open>
  The body of the middleware has two branches: it calls \<^verbatim>\<open>next()\<close> itself, or it builds
  the lusca validator and hands the request to it.
\<close>

datatype csrf_action = CallNext | CallLuscaCsrf

definition csrf_branch :: "request \<Rightarrow> csrf_action" where
  "csrf_branch req = (if path req = ''/api/api/upload'' then CallNext else CallLuscaCsrf)"

definition csrf_middleware :: "ext \<Rightarrow> request \<Rightarrow> outcome" where
  "csrf_middleware x req =
     (case csrf_branch req of
        CallNext \<Rightarrow> Next
      | CallLuscaCsrf \<Rightarrow> lusca_csrf x req)"

section \<open>The return-to middleware (lines 104-117)\<close>

text \<open>The two conditions under which the middleware assigns \<^verbatim>\<open>req.session.returnTo\<close>.\<close>

definition capture_unauthenticated :: "request \<Rightarrow> bool" where
  "capture_unauthenticated req =
     (user req = None \<and>
      path req \<noteq> ''/api/login'' \<and>
      path req \<noteq> ''/api/signup'' \<and>
      \<not> match_auth (path req) \<and>
      \<not> match_dot (path req))"

definition capture_account :: "request \<Rightarrow> bool" where
  "capture_account req = (user req \<noteq> None \<and> path req = ''/api/account'')"

definition returnTo_middleware :: "request \<Rightarrow> session \<Rightarrow> session \<times> outcome" where
  "returnTo_middleware req s =
     (if capture_unauthenticated req then (s\<lparr>returnTo := Some (path req)\<rparr>, Next)
      else if capture_account req then (s\<lparr>returnTo := Some (path req)\<rparr>, Next)
      else (s, Next))"

section \<open>Authorization gates\<close>

text \<open>
  Modelled from the spec: the gate function \<^verbatim>\<open>isAuthenticated\<close> of the application module
  \<^verbatim>\<open>config/passport\<close>, which \<^verbatim>\<open>index.js\<close> requires but which is not among the sources.
  Section 4.3 of the specification: the check is "principal present"; it is a
  pass-through guard that redirects or halts the chain on failure and calls through
  unchanged on success.  The diversion is recorded as \<open>GateDiverted\<close> with the gate's
  name; its target is not modelled.
\<close>

definition isAuthenticated :: "request \<Rightarrow> outcome" where
  "isAuthenticated req =
     (case user req of
        None \<Rightarrow> Respond (GateDiverted ''isAuthenticated'')
      | Some u \<Rightarrow> Next)"

text \<open>
  Modelled from the spec: the gate function \<^verbatim>\<open>isAuthorized\<close> of the same missing module.
  Section 4.3: the check is "principal present AND holds a valid provider access token
  for the specific third-party service the route targets", with the same pass-through
  behaviour.
\<close>

definition isAuthorized :: "request \<Rightarrow> outcome" where
  "isAuthorized req =
     (case user req of
        None \<Rightarrow> Respond (GateDiverted ''isAuthorized'')
      | Some u \<Rightarrow>
          (if token_for u (path req) then Next
           else Respond (GateDiverted ''isAuthorized'')))"

section \<open>Route handlers and the route table (lines 124-222)\<close>

text \<open>
  The values that appear as handlers in the route registrations: a function of one of the
  controller modules (module and function name), the two gates, multer's
  \<^verbatim>\<open>upload.single(field)\<close>, \<^verbatim>\<open>passport.authenticate(strategy, options)\<close>,
  \<^verbatim>\<open>passport.authorize(strategy, options)\<close>, and the two shapes of inline arrow function:
  \<^verbatim>\<open>res.redirect(req.session.returnTo || '/api/')\<close> and \<^verbatim>\<open>res.redirect(literal)\<close>.
\<close>

datatype handler =
    Controller string string
  | IsAuthenticated
  | IsAuthorized
  | UploadSingle string
  | PassportAuthenticate string options
  | PassportAuthorize string options
  | RedirectReturnTo
  | RedirectTo string

type_synonym route = "http_method \<times> string \<times> handler list"

definition primary_routes :: "route list" where
  "primary_routes =
     [(GET, ''/'', [Controller ''home'' ''index'']),
      (GET, ''/api/'', [Controller ''home'' ''index'']),
      (GET, ''/api/login'', [Controller ''user'' ''getLogin'']),
      (POST, ''/api/login'', [Controller ''user'' ''postLogin'']),
      (GET, ''/api/logout'', [Controller ''user'' ''logout'']),
      (GET, ''/api/forgot'', [Controller ''user'' ''getForgot'']),
      (POST, ''/api/forgot'', [Controller ''user'' ''postForgot'']),
      (GET, ''/api/reset/:token'', [Controller ''user'' ''getReset'']),
      (POST, ''/api/reset/:token'', [Controller ''user'' ''postReset'']),
      (GET, ''/api/signup'', [Controller ''user'' ''getSignup'']),
      (POST, ''/api/signup'', [Controller ''user'' ''postSignup'']),
      (GET, ''/api/contact'', [Controller ''contact'' ''getContact'']),
      (POST, ''/api/contact'', [Controller ''contact'' ''postContact'']),
      (GET, ''/api/account'', [IsAuthenticated, Controller ''user'' ''getAccount'']),
      (POST, ''/api/account/profile'', [IsAuthenticated, Controller ''user'' ''postUpdateProfile'']),
      (POST, ''/api/account/password'', [IsAuthenticated, Controller ''user'' ''postUpdatePassword'']),
      (POST, ''/api/account/delete'', [IsAuthenticated, Controller ''user'' ''postDeleteAccount'']),
      (GET, ''/api/account/unlink/:provider'', [IsAuthenticated, Controller ''user'' ''getOauthUnlink''])]"

definition api_example_routes :: "route list" where
  "api_example_routes =
     [(GET, ''/api/api'', [Controller ''api'' ''getApi'']),
      (GET, ''/api/api/lastfm'', [Controller ''api'' ''getLastfm'']),
      (GET, ''/api/api/nyt'', [Controller ''api'' ''getNewYorkTimes'']),
      (GET, ''/api/api/aviary'', [Controller ''api'' ''getAviary'']),
      (GET, ''/api/api/steam'', [IsAuthenticated, IsAuthorized, Controller ''api'' ''getSteam'']),
      (GET, ''/api/api/stripe'', [Controller ''api'' ''getStripe'']),
      (POST, ''/api/api/stripe'', [Controller ''api'' ''postStripe'']),
      (GET, ''/api/api/scraping'', [Controller ''api'' ''getScraping'']),
      (GET, ''/api/api/twilio'', [Controller ''api'' ''getTwilio'']),
      (POST, ''/api/api/twilio'', [Controller ''api'' ''postTwilio'']),
      (GET, ''/api/api/clockwork'', [Controller ''api'' ''getClockwork'']),
      (POST, ''/api/api/clockwork'', [Controller ''api'' ''postClockwork'']),
      (GET, ''/api/api/foursquare'', [IsAuthenticated, IsAuthorized, Controller ''api'' ''getFoursquare'']),
      (GET, ''/api/api/tumblr'', [IsAuthenticated, IsAuthorized, Controller ''api'' ''getTumblr'']),
      (GET, ''/api/api/facebook'', [IsAuthenticated, IsAuthorized, Controller ''api'' ''getFacebook'']),
      (GET, ''/api/api/github'', [IsAuthenticated, IsAuthorized, Controller ''api'' ''getGithub'']),
      (GET, ''/api/api/twitter'', [IsAuthenticated, IsAuthorized, Controller ''api'' ''getTwitter'']),
      (POST, ''/api/api/twitter'', [IsAuthenticated, IsAuthorized, Controller ''api'' ''postTwitter'']),
      (GET, ''/api/api/linkedin'', [IsAuthenticated, IsAuthorized, Controller ''api'' ''getLinkedin'']),
      (GET, ''/api/api/instagram'', [IsAuthenticated, IsAuthorized, Controller ''api'' ''getInstagram'']),
      (GET, ''/api/api/paypal'', [Controller ''api'' ''getPayPal'']),
      (GET, ''/api/api/paypal/success'', [Controller ''api'' ''getPayPalSuccess'']),
      (GET, ''/api/api/paypal/cancel'', [Controller ''api'' ''getPayPalCancel'']),
      (GET, ''/api/api/lob'', [Controller ''api'' ''getLob'']),
      (GET, ''/api/api/upload'', [Controller ''api'' ''getFileUpload'']),
      (POST, ''/api/api/upload'', [UploadSingle ''myFile'', Controller ''api'' ''postFileUpload'']),
      (GET, ''/api/api/pinterest'', [IsAuthenticated, IsAuthorized, Controller ''api'' ''getPinterest'']),
      (POST, ''/api/api/pinterest'', [IsAuthenticated, IsAuthorized, Controller ''api'' ''postPinterest'']),
      (GET, ''/api/api/google-maps'', [Controller ''api'' ''getGoogleMaps''])]"

definition sign_in_routes :: "route list" where
  "sign_in_routes =
     [(GET, ''/api/auth/instagram'', [PassportAuthenticate ''instagram'' []]),
      (GET, ''/api/auth/instagram/callback'', [PassportAuthenticate ''instagram'' [(''failureRedirect'', [''/api/login''])], RedirectReturnTo]),
      (GET, ''/api/auth/facebook'', [PassportAuthenticate ''facebook'' [(''scope'', [''email'', ''public_profile''])]]),
      (GET, ''/api/auth/facebook/callback'', [PassportAuthenticate ''facebook'' [(''failureRedirect'', [''/api/login''])], RedirectReturnTo]),
      (GET, ''/api/auth/github'', [PassportAuthenticate ''github'' []]),
      (GET, ''/api/auth/github/callback'', [PassportAuthenticate ''github'' [(''failureRedirect'', [''/api/login''])], RedirectReturnTo]),
      (GET, ''/api/auth/google'', [PassportAuthenticate ''google'' [(''scope'', [''profile email''])]]),
      (GET, ''/api/auth/google/callback'', [PassportAuthenticate ''google'' [(''failureRedirect'', [''/api/login''])], RedirectReturnTo]),
      (GET, ''/api/auth/twitter'', [PassportAuthenticate ''twitter'' []]),
      (GET, ''/api/auth/twitter/callback'', [PassportAuthenticate ''twitter'' [(''failureRedirect'', [''/api/login''])], RedirectReturnTo]),
      (GET, ''/api/auth/linkedin'', [PassportAuthenticate ''linkedin'' [(''state'', [''SOME STATE''])]]),
      (GET, ''/api/auth/linkedin/callback'', [PassportAuthenticate ''linkedin'' [(''failureRedirect'', [''/api/login''])], RedirectReturnTo])]"

definition authorization_routes :: "route list" where
  "authorization_routes =
     [(GET, ''/api/auth/foursquare'', [PassportAuthorize ''foursquare'' []]),
      (GET, ''/api/auth/foursquare/callback'', [PassportAuthorize ''foursquare'' [(''failureRedirect'', [''/api/api''])], RedirectTo ''/api/api/foursquare'']),
      (GET, ''/api/auth/tumblr'', [PassportAuthorize ''tumblr'' []]),
      (GET, ''/api/auth/tumblr/callback'', [PassportAuthorize ''tumblr'' [(''failureRedirect'', [''/api/api''])], RedirectTo ''/api/api/tumblr'']),
      (GET, ''/api/auth/steam'', [PassportAuthorize ''openid'' [(''state'', [''SOME STATE''])]]),
      (GET, ''/api/auth/steam/callback'', [PassportAuthorize ''openid'' [(''failureRedirect'', [''/api/login''])], RedirectReturnTo]),
      (GET, ''/api/auth/pinterest'', [PassportAuthorize ''pinterest'' [(''scope'', [''read_public write_public''])]]),
      (GET, ''/api/auth/pinterest/callback'', [PassportAuthorize ''pinterest'' [(''failureRedirect'', [''/api/login''])], RedirectTo ''/api/api/pinterest''])]"

definition routes :: "route list" where
  "routes = primary_routes @ api_example_routes @ sign_in_routes @ authorization_routes"

text \<open>
  Running one handler.  A controller function is the terminal handler of its route; that
  the request reached it is recorded as \<open>Handled\<close>.  The third-party handlers are taken
  to leave \<^verbatim>\<open>req.session.returnTo\<close> as it is.
\<close>

fun run_handler :: "ext \<Rightarrow> handler \<Rightarrow> request \<Rightarrow> session \<Rightarrow> outcome" where
  "run_handler x (Controller m f) req s = Respond (Handled m f)"
| "run_handler x IsAuthenticated req s = isAuthenticated req"
| "run_handler x IsAuthorized req s = isAuthorized req"
| "run_handler x (UploadSingle field) req s = multer_single x field req"
| "run_handler x (PassportAuthenticate strategy opts) req s =
     passport_authenticate x strategy opts req"
| "run_handler x (PassportAuthorize strategy opts) req s =
     passport_authorize x strategy opts req"
| "run_handler x RedirectReturnTo req s = Respond (Redirect (js_or (returnTo s) ''/api/''))"
| "run_handler x (RedirectTo target) req s = Respond (Redirect target)"

text \<open>The handlers of a route run in order; each runs only if the one before called \<^verbatim>\<open>next()\<close>.\<close>

fun run_chain :: "ext \<Rightarrow> handler list \<Rightarrow> request \<Rightarrow> session \<Rightarrow> outcome" where
  "run_chain x [] req s = Next"
| "run_chain x (h # hs) req s =
     (case run_handler x h req s of
        Next \<Rightarrow> run_chain x hs req s
      | Respond r \<Rightarrow> Respond r
      | Raise e \<Rightarrow> Raise e)"

text \<open>
  Matching a request path against a route path: segment by segment, where a segment of
  the route that starts with a colon is a parameter and matches any non-empty segment.
  The matching is exact in letter case and trailing slash.
\<close>

fun segments :: "string \<Rightarrow> string list" where
  "segments [] = [] # []"
| "segments (c # cs) =
     (if c = CHR ''/'' then [] # segments cs
      else (case segments cs of
              [] \<Rightarrow> [c] # []
            | g # gs \<Rightarrow> (c # g) # gs))"

fun segment_matches :: "string \<Rightarrow> string \<Rightarrow> bool" where
  "segment_matches [] g = (g = [])"
| "segment_matches (c # cs) g = (if c = CHR '':'' then g \<noteq> [] else g = c # cs)"

definition path_matches :: "string \<Rightarrow> string \<Rightarrow> bool" where
  "path_matches pattern p = list_all2 segment_matches (segments pattern) (segments p)"

fun route_matches :: "route \<Rightarrow> request \<Rightarrow> bool" where
  "route_matches (m, pattern, hs) req = (req_method req = m \<and> path_matches pattern (path req))"

text \<open>
  The router tries the routes in registration order; a route whose handlers all called
  \<^verbatim>\<open>next()\<close> lets the search go on.
\<close>

fun dispatch :: "ext \<Rightarrow> route list \<Rightarrow> request \<Rightarrow> session \<Rightarrow> outcome" where
  "dispatch x [] req s = Next"
| "dispatch x (r # rs) req s =
     (if route_matches r req then
        (case run_chain x (snd (snd r)) req s of
           Next \<Rightarrow> dispatch x rs req s
         | Respond resp \<Rightarrow> Respond resp
         | Raise e \<Rightarrow> Raise e)
      else dispatch x rs req s)"

text \<open>
  The part of the middleware stack that follows \<^verbatim>\<open>flash()\<close>: the CSRF middleware, the
  return-to middleware, \<^verbatim>\<open>express.static\<close>, the routes, and \<^verbatim>\<open>errorHandler()\<close>, which
  answers whatever was passed to \<^verbatim>\<open>next(err)\<close>.  The header-setting lusca middleware and
  the assignment of \<^verbatim>\<open>res.locals.user\<close> between them always call \<^verbatim>\<open>next()\<close> and are left
  out.  After \<^verbatim>\<open>next(err)\<close> express skips every remaining ordinary middleware function.
\<close>

fun finish :: "session \<Rightarrow> outcome \<Rightarrow> session \<times> response" where
  "finish s Next = (s, NotFound)"
| "finish s (Respond r) = (s, r)"
| "finish s (Raise e) = (s, ErrorPage e)"

definition serve :: "ext \<Rightarrow> request \<Rightarrow> session \<Rightarrow> session \<times> response" where
  "serve x req s =
     (case csrf_middleware x req of
        Next \<Rightarrow>
          (case returnTo_middleware req s of
             (s', Next) \<Rightarrow>
               (case express_static x req of
                  Next \<Rightarrow> finish s' (dispatch x routes req s')
                | out \<Rightarrow> finish s' out)
           | (s', out) \<Rightarrow> finish s' out)
      | out \<Rightarrow> finish s out)"

section \<open>Connecting to MongoDB (lines 51-59)\<close>

text \<open>
  The process as far as the start-up block touches it: the environment, the ready state
  of the mongoose connection, the arguments of the calls to \<^verbatim>\<open>mongoose.connect\<close> made so
  far, the listeners registered for the connection's \<^verbatim>\<open>error\<close> event, the lines written
  to the console, and whether \<^verbatim>\<open>process.exit()\<close> has been called.  The assignment to
  \<^verbatim>\<open>mongoose.Promise\<close> touches none of these and is left out.
\<close>

datatype console_arg = ChalkRed string

datatype console_line =
    ConsoleError string
  | ConsoleLog string "console_arg list"

datatype listener = LogAndExit

record process =
  env :: "string \<rightharpoonup> string"
  readyState :: nat
  connects :: "string option list"
  error_listeners :: "listener list"
  console :: "console_line list"
  exited :: bool

text \<open>The argument of the log line is \<^verbatim>\<open>chalk.red\<close> of the ballot cross U+2717 (here in UTF-8).\<close>

definition ballot_x :: string where
  "ballot_x = [CHR 0xE2, CHR 0x9C, CHR 0x97]"

text \<open>The arrow function registered for the \<^verbatim>\<open>error\<close> event (lines 54-58).\<close>

definition on_connection_error :: "string \<Rightarrow> process \<Rightarrow> process" where
  "on_connection_error err p =
     p\<lparr>console := console p @
          [ConsoleError err,
           ConsoleLog ''%s MongoDB connection error. Please make sure MongoDB is running.''
             [ChalkRed ballot_x]],
       exited := True\<rparr>"

definition connect_to_mongodb :: "process \<Rightarrow> process" where
  "connect_to_mongodb p =
     (if readyState p \<noteq> 1 then
        p\<lparr>connects := connects p @
             [js_or_undefined (env p ''MONGODB_URI'') (env p ''MONGOLAB_URI'')],
          error_listeners := error_listeners p @ [LogAndExit]\<rparr>
      else p)"

text \<open>
  The connection emits \<^verbatim>\<open>error\<close>: the listeners run in the order of their registration,
  and nothing runs in a process that has exited.
\<close>

fun run_listener :: "string \<Rightarrow> listener \<Rightarrow> process \<Rightarrow> process" where
  "run_listener err LogAndExit p = (if exited p then p else on_connection_error err p)"

definition emit_error :: "string \<Rightarrow> process \<Rightarrow> process" where
  "emit_error err p = fold (run_listener err) (error_listeners p) p"

section \<open>Auxiliary facts\<close>

lemmas route_table = routes_def primary_routes_def api_example_routes_def sign_in_routes_def
  authorization_routes_def

lemma returnTo_middleware_cases:
  "returnTo_middleware req s =
     (if capture_unauthenticated req \<or> capture_account req
      then (s\<lparr>returnTo := Some (path req)\<rparr>, Next) else (s, Next))"
  by (simp add: returnTo_middleware_def)

lemma redirect_returnTo_cases:
  "(returnTo s = None \<longrightarrow> js_or (returnTo s) d = d) \<and>
   (returnTo s = Some [] \<longrightarrow> js_or (returnTo s) d = d) \<and>
   (\<forall>t. returnTo s = Some t \<and> t \<noteq> [] \<longrightarrow> js_or (returnTo s) d = t)"
  by simp

text \<open>Nothing after the CSRF middleware consults the lusca validator.\<close>

lemma run_handler_lusca_csrf:
  "run_handler (x\<lparr>lusca_csrf := v\<rparr>) h req s = run_handler x h req s"
  by (cases h) simp_all

lemma run_chain_lusca_csrf:
  "run_chain (x\<lparr>lusca_csrf := v\<rparr>) hs req s = run_chain x hs req s"
  by (induction hs) (simp_all add: run_handler_lusca_csrf split: outcome.splits)

lemma dispatch_lusca_csrf:
  "dispatch (x\<lparr>lusca_csrf := v\<rparr>) rs req s = dispatch x rs req s"
  by (induction rs) (simp_all add: run_chain_lusca_csrf split: outcome.splits)

text \<open>Listeners in a process that has exited.\<close>

lemma run_listener_exited: "exited p \<Longrightarrow> run_listener err l p = p"
  by (cases l) simp

lemma fold_listeners_exited: "exited p \<Longrightarrow> fold (run_listener err) ls p = p"
  by (induction ls) (simp_all add: run_listener_exited)

lemma exited_on_connection_error: "exited (on_connection_error err p)"
  by (simp add: on_connection_error_def)

lemma fold_listeners_first:
  assumes "\<not> exited p" and "ls \<noteq> []"
  shows "fold (run_listener err) ls p = on_connection_error err p"
proof (cases ls)
  case Nil
  with assms show ?thesis by simp
next
  case (Cons l rest)
  have "run_listener err l p = on_connection_error err p"
    using assms(1) by (cases l) simp
  then show ?thesis
    using Cons by (simp add: fold_listeners_exited exited_on_connection_error)
qed

text \<open>The sign-in callbacks, one provider at a time.\<close>

lemma sign_in_provider_cases:
  assumes "provider \<in> set [''instagram'', ''facebook'', ''github'', ''google'', ''twitter'',
             ''linkedin'']"
  shows "provider = ''instagram'' \<or> provider = ''facebook'' \<or> provider = ''github'' \<or>
         provider = ''google'' \<or> provider = ''twitter'' \<or> provider = ''linkedin''"
  using assms by simp

lemma sign_in_callback_dispatch:
  assumes "provider \<in> set [''instagram'', ''facebook'', ''github'', ''google'', ''twitter'',
             ''linkedin'']"
      and "req_method req = GET"
      and "path req = ''/api/auth/'' @ provider @ ''/callback''"
      and "passport_authenticate x provider [(''failureRedirect'', [''/api/login''])] req = Next"
  shows "dispatch x routes req s = Respond (Redirect (js_or (returnTo s) ''/api/''))"
  using sign_in_provider_cases [OF assms(1)] assms(2-4)
  apply (elim disjE)
  apply (simp_all add: route_table path_matches_def)
  done

lemma home_dispatch:
  "dispatch x routes \<lparr>req_method = GET, path = ''/api/'', user = u\<rparr> s =
     Respond (Handled ''home'' ''index'')"
  by (simp add: route_table path_matches_def)

text \<open>The authorization callbacks.\<close>

lemma foursquare_callback_dispatch:
  assumes "req_method req = GET" and "path req = ''/api/auth/foursquare/callback''"
      and "passport_authorize x ''foursquare'' [(''failureRedirect'', [''/api/api''])] req = Next"
  shows "dispatch x routes req s = Respond (Redirect ''/api/api/foursquare'')"
  using assms by (simp add: route_table path_matches_def)

lemma tumblr_callback_dispatch:
  assumes "req_method req = GET" and "path req = ''/api/auth/tumblr/callback''"
      and "passport_authorize x ''tumblr'' [(''failureRedirect'', [''/api/api''])] req = Next"
  shows "dispatch x routes req s = Respond (Redirect ''/api/api/tumblr'')"
  using assms by (simp add: route_table path_matches_def)

lemma pinterest_callback_dispatch:
  assumes "req_method req = GET" and "path req = ''/api/auth/pinterest/callback''"
      and "passport_authorize x ''pinterest'' [(''failureRedirect'', [''/api/login''])] req = Next"
  shows "dispatch x routes req s = Respond (Redirect ''/api/api/pinterest'')"
  using assms by (simp add: route_table path_matches_def)

lemma steam_callback_dispatch:
  assumes "req_method req = GET" and "path req = ''/api/auth/steam/callback''"
      and "passport_authorize x ''openid'' [(''failureRedirect'', [''/api/login''])] req = Next"
  shows "dispatch x routes req s = Respond (Redirect (js_or (returnTo s) ''/api/''))"
  using assms by (simp add: route_table path_matches_def)

lemma returnTo_redirects_in_authorization_routes:
  "filter (\<lambda>(m, p, hs). RedirectReturnTo \<in> set hs) authorization_routes =
     [(GET, ''/api/auth/steam/callback'',
       [PassportAuthorize ''openid'' [(''failureRedirect'', [''/api/login''])],
        RedirectReturnTo])]"
  by (simp add: authorization_routes_def)

text \<open>Routes whose handlers start with the two gates.\<close>

lemma gated_chain:
  assumes "user req = None \<or> (\<exists>u. user req = Some u \<and> \<not> token_for u (path req))"
  shows "run_chain x [IsAuthenticated, IsAuthorized, Controller m c] req s =
           Respond (GateDiverted
             (if user req = None then ''isAuthenticated'' else ''isAuthorized''))"
  using assms by (auto simp add: isAuthenticated_def isAuthorized_def)

lemma gated_dispatch:
  assumes "user req = None \<or> (\<exists>u. user req = Some u \<and> \<not> token_for u (path req))"
      and "\<forall>(m, p, hs) \<in> set rs. path_matches p (path req) \<longrightarrow>
             (\<exists>c. hs = [IsAuthenticated, IsAuthorized, Controller ''api'' c])"
  shows "dispatch x rs req s =
           (if \<exists>r \<in> set rs. route_matches r req
            then Respond (GateDiverted
                   (if user req = None then ''isAuthenticated'' else ''isAuthorized''))
            else Next)"
  using assms(2)
proof (induction rs)
  case Nil
  then show ?case by simp
next
  case (Cons r rs)
  obtain m p hs where r: "r = (m, p, hs)" by (cases r)
  show ?case
  proof (cases "route_matches r req")
    case True
    with Cons.prems r obtain c where "hs = [IsAuthenticated, IsAuthorized, Controller ''api'' c]"
      by auto
    with True r gated_chain [OF assms(1), of x "''api''" c s] show ?thesis
      by simp
  next
    case False
    with Cons show ?thesis by simp
  qed
qed

lemma gated_provider_cases:
  assumes "provider \<in> set [''steam'', ''foursquare'', ''tumblr'', ''facebook'', ''github'',
             ''twitter'', ''linkedin'', ''instagram'', ''pinterest'']"
  shows "provider = ''steam'' \<or> provider = ''foursquare'' \<or> provider = ''tumblr'' \<or>
         provider = ''facebook'' \<or> provider = ''github'' \<or> provider = ''twitter'' \<or>
         provider = ''linkedin'' \<or> provider = ''instagram'' \<or> provider = ''pinterest''"
  using assms by simp

lemma gated_table:
  assumes "provider \<in> set [''steam'', ''foursquare'', ''tumblr'', ''facebook'', ''github'',
             ''twitter'', ''linkedin'', ''instagram'', ''pinterest'']"
  shows "\<forall>(m, p, hs) \<in> set routes. path_matches p (''/api/api/'' @ provider) \<longrightarrow>
           (\<exists>c. hs = [IsAuthenticated, IsAuthorized, Controller ''api'' c])"
  using gated_provider_cases [OF assms]
  apply (elim disjE)
  apply (simp_all add: route_table path_matches_def)
  done

lemma gated_path_matches_itself:
  assumes "provider \<in> set [''steam'', ''foursquare'', ''tumblr'', ''facebook'', ''github'',
             ''twitter'', ''linkedin'', ''instagram'', ''pinterest'']"
  shows "path_matches (''/api/api/'' @ provider) (''/api/api/'' @ provider)"
  using gated_provider_cases [OF assms]
  apply (elim disjE)
  apply (simp_all add: path_matches_def)
  done

lemma gated_get_registered:
  assumes "provider \<in> set [''steam'', ''foursquare'', ''tumblr'', ''facebook'', ''github'',
             ''twitter'', ''linkedin'', ''instagram'', ''pinterest'']"
  shows "\<exists>hs. (GET, ''/api/api/'' @ provider, hs) \<in> set routes"
  using gated_provider_cases [OF assms]
  apply (elim disjE)
  apply (simp_all add: route_table)
  done

section \<open>The return-to middleware\<close>

text \<open>
  C1: the return-to middleware is to leave the authentication routes out of what it
  remembers, next to the login and signup pages, so that a successful login leads back to
  the intended page.  Every OAuth route of the table is registered under
  \<^verbatim>\<open>/api/auth/\<close>, while the middleware tests the path against \<^verbatim>\<open>/^\/auth/\<close>, which none
  of them matches.  An unauthenticated \<^verbatim>\<open>GET\<close> of the sign-in callback
  \<^verbatim>\<open>/api/auth/github/callback\<close> therefore satisfies the capture condition: the remembered
  \<^verbatim>\<open>/api/account\<close> is replaced by the path of the callback itself, and the successful
  login is answered by a redirect to that callback path.
\<close>

theorem returnTo_middleware_captures_oauth_route:
  "(GET, ''/api/auth/github/callback'',
      [PassportAuthenticate ''github'' [(''failureRedirect'', [''/api/login''])],
       RedirectReturnTo]) \<in> set sign_in_routes \<and>
   \<not> match_auth ''/api/auth/github/callback'' \<and>
   capture_unauthenticated
     \<lparr>req_method = GET, path = ''/api/auth/github/callback'', user = None\<rparr> \<and>
   returnTo_middleware \<lparr>req_method = GET, path = ''/api/auth/github/callback'', user = None\<rparr>
       \<lparr>returnTo = Some ''/api/account''\<rparr>
     = (\<lparr>returnTo = Some ''/api/auth/github/callback''\<rparr>, Next) \<and>
   serve
     \<lparr>lusca_csrf = (\<lambda>r. Next),
       passport_authenticate = (\<lambda>strategy opts r. Next),
       passport_authorize = (\<lambda>strategy opts r. Next),
       multer_single = (\<lambda>field r. Next),
       express_static = (\<lambda>r. Next)\<rparr>
     \<lparr>req_method = GET, path = ''/api/auth/github/callback'', user = None\<rparr>
     \<lparr>returnTo = Some ''/api/account''\<rparr>
     = (\<lparr>returnTo = Some ''/api/auth/github/callback''\<rparr>,
        Redirect ''/api/auth/github/callback'')"
proof -
  have capture: "capture_unauthenticated
      \<lparr>req_method = GET, path = ''/api/auth/github/callback'', user = None\<rparr>"
    by (simp add: capture_unauthenticated_def match_auth_def match_dot_def)
  have middleware: "returnTo_middleware
      \<lparr>req_method = GET, path = ''/api/auth/github/callback'', user = None\<rparr>
      \<lparr>returnTo = Some ''/api/account''\<rparr>
    = (\<lparr>returnTo = Some ''/api/auth/github/callback''\<rparr>, Next)"
    by (simp add: returnTo_middleware_def capture)
  have callback: "dispatch
      \<lparr>lusca_csrf = (\<lambda>r. Next),
        passport_authenticate = (\<lambda>strategy opts r. Next),
        passport_authorize = (\<lambda>strategy opts r. Next),
        multer_single = (\<lambda>field r. Next),
        express_static = (\<lambda>r. Next)\<rparr>
      routes \<lparr>req_method = GET, path = ''/api/auth/github/callback'', user = None\<rparr>
      \<lparr>returnTo = Some ''/api/auth/github/callback''\<rparr>
    = Respond (Redirect ''/api/auth/github/callback'')"
    by (simp add: route_table path_matches_def)
  have "serve
      \<lparr>lusca_csrf = (\<lambda>r. Next),
        passport_authenticate = (\<lambda>strategy opts r. Next),
        passport_authorize = (\<lambda>strategy opts r. Next),
        multer_single = (\<lambda>field r. Next),
        express_static = (\<lambda>r. Next)\<rparr>
      \<lparr>req_method = GET, path = ''/api/auth/github/callback'', user = None\<rparr>
      \<lparr>returnTo = Some ''/api/account''\<rparr>
    = (\<lparr>returnTo = Some ''/api/auth/github/callback''\<rparr>,
       Redirect ''/api/auth/github/callback'')"
    by (simp add: serve_def csrf_middleware_def csrf_branch_def middleware callback)
  moreover have "\<not> match_auth ''/api/auth/github/callback''"
    by (simp add: match_auth_def)
  moreover have "(GET, ''/api/auth/github/callback'',
      [PassportAuthenticate ''github'' [(''failureRedirect'', [''/api/login''])],
       RedirectReturnTo]) \<in> set sign_in_routes"
    by (simp add: sign_in_routes_def)
  ultimately show ?thesis
    using capture middleware by blast
qed

text \<open>
  C6: \<^verbatim>\<open>session.returnTo\<close> is a single slot.  When two requests in succession each
  satisfy one of the two capture conditions, the slot holds the path of the first after
  the first and the path of the second, whole and whatever its length, after the second.
\<close>

theorem returnTo_later_capture_overwrites:
  assumes "capture_unauthenticated r1 \<or> capture_account r1"
      and "capture_unauthenticated r2 \<or> capture_account r2"
  shows "returnTo (fst (returnTo_middleware r1 s)) = Some (path r1) \<and>
         returnTo (fst (returnTo_middleware r2 (fst (returnTo_middleware r1 s)))) =
           Some (path r2)"
  using assms by (simp add: returnTo_middleware_cases)

theorem returnTo_later_capture_overwrites_witness:
  "returnTo (fst (returnTo_middleware \<lparr>req_method = GET, path = ''/api/account'', user = None\<rparr>
      \<lparr>returnTo = None\<rparr>)) = Some ''/api/account'' \<and>
   returnTo (fst (returnTo_middleware \<lparr>req_method = GET, path = ''/api/contact'', user = None\<rparr>
      (fst (returnTo_middleware \<lparr>req_method = GET, path = ''/api/account'', user = None\<rparr>
         \<lparr>returnTo = None\<rparr>)))) = Some ''/api/contact''"
proof -
  have a: "capture_unauthenticated \<lparr>req_method = GET, path = ''/api/account'', user = None\<rparr> \<or>
           capture_account \<lparr>req_method = GET, path = ''/api/account'', user = None\<rparr>"
    by (simp add: capture_unauthenticated_def match_auth_def match_dot_def)
  have b: "capture_unauthenticated \<lparr>req_method = GET, path = ''/api/contact'', user = None\<rparr> \<or>
           capture_account \<lparr>req_method = GET, path = ''/api/contact'', user = None\<rparr>"
    by (simp add: capture_unauthenticated_def match_auth_def match_dot_def)
  show ?thesis
    using returnTo_later_capture_overwrites [OF a b, of "\<lparr>returnTo = None\<rparr>"] by simp
qed

text \<open>
  C8: a request that satisfies neither capture condition, that is an authenticated request
  to a path other than \<^verbatim>\<open>/api/account\<close>, or an unauthenticated request to
  \<^verbatim>\<open>/api/login\<close>, to \<^verbatim>\<open>/api/signup\<close>, to a path that begins with \<^verbatim>\<open>/auth\<close> or to a path
  with a dot in it, leaves the session as it was; the middleware calls \<^verbatim>\<open>next()\<close>.
\<close>

theorem returnTo_middleware_frame:
  assumes "(user req \<noteq> None \<and> path req \<noteq> ''/api/account'') \<or>
           (user req = None \<and>
              (path req = ''/api/login'' \<or> path req = ''/api/signup'' \<or>
               match_auth (path req) \<or> match_dot (path req)))"
  shows "\<not> capture_unauthenticated req \<and> \<not> capture_account req \<and>
         returnTo_middleware req s = (s, Next)"
  using assms
  by (auto simp add: returnTo_middleware_def capture_unauthenticated_def capture_account_def)

theorem returnTo_middleware_frame_witness:
  "returnTo_middleware \<lparr>req_method = GET, path = ''/api/login'', user = None\<rparr>
       \<lparr>returnTo = Some ''/api/account''\<rparr> = (\<lparr>returnTo = Some ''/api/account''\<rparr>, Next) \<and>
   returnTo_middleware \<lparr>req_method = GET, path = ''/css/main.css'', user = None\<rparr>
       \<lparr>returnTo = Some ''/api/account''\<rparr> = (\<lparr>returnTo = Some ''/api/account''\<rparr>, Next) \<and>
   returnTo_middleware \<lparr>req_method = GET, path = ''/auth/github'', user = None\<rparr>
       \<lparr>returnTo = Some ''/api/account''\<rparr> = (\<lparr>returnTo = Some ''/api/account''\<rparr>, Next) \<and>
   returnTo_middleware
       \<lparr>req_method = GET, path = ''/api/contact'', user = Some \<lparr>token_for = (\<lambda>p. False)\<rparr>\<rparr>
       \<lparr>returnTo = Some ''/api/account''\<rparr> = (\<lparr>returnTo = Some ''/api/account''\<rparr>, Next)"
  using
    returnTo_middleware_frame [of "\<lparr>req_method = GET, path = ''/api/login'', user = None\<rparr>"
      "\<lparr>returnTo = Some ''/api/account''\<rparr>"]
    returnTo_middleware_frame [of "\<lparr>req_method = GET, path = ''/css/main.css'', user = None\<rparr>"
      "\<lparr>returnTo = Some ''/api/account''\<rparr>"]
    returnTo_middleware_frame [of "\<lparr>req_method = GET, path = ''/auth/github'', user = None\<rparr>"
      "\<lparr>returnTo = Some ''/api/account''\<rparr>"]
    returnTo_middleware_frame
      [of "\<lparr>req_method = GET, path = ''/api/contact'', user = Some \<lparr>token_for = (\<lambda>p. False)\<rparr>\<rparr>"
      "\<lparr>returnTo = Some ''/api/account''\<rparr>"]
  by (simp add: match_auth_def match_dot_def)


section \<open>The conditional CSRF middleware\<close>

text \<open>
  C2: a request whose path is \<^verbatim>\<open>/api/api/upload\<close> takes the branch that calls
  \<^verbatim>\<open>next()\<close>; the lusca validator is not called, so the outcome of the middleware is
  \<^verbatim>\<open>next()\<close> whatever the validator would have said about the token, and the answer to
  the whole request does not depend on the validator.
\<close>

theorem csrf_upload_path_skips_validation:
  "path req = ''/api/api/upload'' \<Longrightarrow>
     csrf_branch req = CallNext \<and>
     csrf_middleware x req = Next \<and>
     serve (x\<lparr>lusca_csrf := v\<rparr>) req s = serve x req s"
  by (simp add: csrf_branch_def csrf_middleware_def serve_def dispatch_lusca_csrf
      split: prod.splits outcome.splits)

theorem csrf_upload_path_skips_validation_witness:
  "csrf_branch \<lparr>req_method = POST, path = ''/api/api/upload'', user = None\<rparr> = CallNext \<and>
   csrf_middleware
     \<lparr>lusca_csrf = (\<lambda>r. Raise ''CSRF token mismatch''),
       passport_authenticate = (\<lambda>strategy opts r. Next),
       passport_authorize = (\<lambda>strategy opts r. Next),
       multer_single = (\<lambda>field r. Next),
       express_static = (\<lambda>r. Next)\<rparr>
     \<lparr>req_method = POST, path = ''/api/api/upload'', user = None\<rparr> = Next"
  using csrf_upload_path_skips_validation
    [of "\<lparr>req_method = POST, path = ''/api/api/upload'', user = None\<rparr>"
     "\<lparr>lusca_csrf = (\<lambda>r. Raise ''CSRF token mismatch''),
       passport_authenticate = (\<lambda>strategy opts r. Next),
       passport_authorize = (\<lambda>strategy opts r. Next),
       multer_single = (\<lambda>field r. Next),
       express_static = (\<lambda>r. Next)\<rparr>"]
  by simp

text \<open>
  C3: a request whose path is anything but \<^verbatim>\<open>/api/api/upload\<close> is handed to the lusca
  validator, and the outcome of the middleware is the validator's.  When the validator
  rejects the request, as it does for a mutating request without a valid token, by
  \<^verbatim>\<open>next(err)\<close> or by answering itself, that rejection is the answer to the request: the
  session is untouched and neither the return-to middleware nor any route handler runs.
\<close>

theorem csrf_other_paths_validated:
  "path req \<noteq> ''/api/api/upload'' \<Longrightarrow>
     csrf_branch req = CallLuscaCsrf \<and>
     csrf_middleware x req = lusca_csrf x req \<and>
     (lusca_csrf x req = Raise e \<longrightarrow> serve x req s = (s, ErrorPage e)) \<and>
     (lusca_csrf x req = Respond r \<longrightarrow> serve x req s = (s, r))"
  by (simp add: csrf_branch_def csrf_middleware_def serve_def)

theorem csrf_other_paths_validated_witness:
  "csrf_branch \<lparr>req_method = POST, path = ''/api/contact'', user = None\<rparr> = CallLuscaCsrf \<and>
   csrf_middleware
     \<lparr>lusca_csrf = (\<lambda>r. Raise ''CSRF token mismatch''),
       passport_authenticate = (\<lambda>strategy opts r. Next),
       passport_authorize = (\<lambda>strategy opts r. Next),
       multer_single = (\<lambda>field r. Next),
       express_static = (\<lambda>r. Next)\<rparr>
     \<lparr>req_method = POST, path = ''/api/contact'', user = None\<rparr> = Raise ''CSRF token mismatch'' \<and>
   serve
     \<lparr>lusca_csrf = (\<lambda>r. Raise ''CSRF token mismatch''),
       passport_authenticate = (\<lambda>strategy opts r. Next),
       passport_authorize = (\<lambda>strategy opts r. Next),
       multer_single = (\<lambda>field r. Next),
       express_static = (\<lambda>r. Next)\<rparr>
     \<lparr>req_method = POST, path = ''/api/contact'', user = None\<rparr> \<lparr>returnTo = None\<rparr> =
     (\<lparr>returnTo = None\<rparr>, ErrorPage ''CSRF token mismatch'')"
  using csrf_other_paths_validated
    [of "\<lparr>req_method = POST, path = ''/api/contact'', user = None\<rparr>"
     "\<lparr>lusca_csrf = (\<lambda>r. Raise ''CSRF token mismatch''),
       passport_authenticate = (\<lambda>strategy opts r. Next),
       passport_authorize = (\<lambda>strategy opts r. Next),
       multer_single = (\<lambda>field r. Next),
       express_static = (\<lambda>r. Next)\<rparr>"
     "''CSRF token mismatch''" "\<lparr>returnTo = None\<rparr>"]
  by simp

text \<open>
  C9: the branch the CSRF middleware takes depends on the path alone.  Changing the method
  of a request does not change the branch, and a request of any method, \<^verbatim>\<open>GET\<close> included,
  whose path is \<^verbatim>\<open>/api/api/upload\<close> skips the validator.
\<close>

theorem csrf_exemption_ignores_method:
  "csrf_branch (req\<lparr>req_method := m\<rparr>) = csrf_branch req \<and>
   csrf_branch \<lparr>req_method = m, path = ''/api/api/upload'', user = u\<rparr> = CallNext \<and>
   csrf_middleware x \<lparr>req_method = m, path = ''/api/api/upload'', user = u\<rparr> = Next"
  by (simp add: csrf_branch_def csrf_middleware_def)

theorem csrf_exemption_ignores_method_witness:
  "csrf_branch \<lparr>req_method = GET, path = ''/api/api/upload'', user = None\<rparr> = CallNext \<and>
   csrf_middleware
     \<lparr>lusca_csrf = (\<lambda>r. Raise ''CSRF token mismatch''),
       passport_authenticate = (\<lambda>strategy opts r. Next),
       passport_authorize = (\<lambda>strategy opts r. Next),
       multer_single = (\<lambda>field r. Next),
       express_static = (\<lambda>r. Next)\<rparr>
     \<lparr>req_method = GET, path = ''/api/api/upload'', user = None\<rparr> = Next"
  using csrf_exemption_ignores_method
    [where req = "\<lparr>req_method = GET, path = ''/api/api/upload'', user = None\<rparr>"
       and m = GET and u = None and x =
     "\<lparr>lusca_csrf = (\<lambda>r. Raise ''CSRF token mismatch''),
       passport_authenticate = (\<lambda>strategy opts r. Next),
       passport_authorize = (\<lambda>strategy opts r. Next),
       multer_single = (\<lambda>field r. Next),
       express_static = (\<lambda>r. Next)\<rparr>"]
  by simp

section \<open>OAuth callbacks\<close>

text \<open>
  C4: for each of the six sign-in providers (Instagram, Facebook, GitHub, Google, Twitter,
  LinkedIn), a \<^verbatim>\<open>GET\<close> of the provider's callback path on which
  \<^verbatim>\<open>passport.authenticate\<close> succeeded (it called \<^verbatim>\<open>next()\<close>) is answered by a redirect to
  \<^verbatim>\<open>session.returnTo\<close> when that holds a path (a non-empty string), and to \<^verbatim>\<open>/api/\<close>
  otherwise.  \<^verbatim>\<open>/api/\<close> is the root of the application: the route table sends it to the
  index function of the home controller.
\<close>

theorem sign_in_callback_redirect:
  assumes "provider \<in> set [''instagram'', ''facebook'', ''github'', ''google'', ''twitter'',
             ''linkedin'']"
      and "req_method req = GET"
      and "path req = ''/api/auth/'' @ provider @ ''/callback''"
      and "passport_authenticate x provider [(''failureRedirect'', [''/api/login''])] req = Next"
  shows "(\<forall>t. returnTo s = Some t \<and> t \<noteq> [] \<longrightarrow>
            dispatch x routes req s = Respond (Redirect t)) \<and>
         (returnTo s = None \<or> returnTo s = Some [] \<longrightarrow>
            dispatch x routes req s = Respond (Redirect ''/api/'')) \<and>
         dispatch x routes \<lparr>req_method = GET, path = ''/api/'', user = u\<rparr> s' =
           Respond (Handled ''home'' ''index'')"
  using sign_in_callback_dispatch [OF assms, of s] redirect_returnTo_cases [of s "''/api/''"]
    home_dispatch [of x u s']
  by auto

theorem sign_in_callback_redirect_witness:
  "dispatch
     \<lparr>lusca_csrf = (\<lambda>r. Raise ''CSRF token mismatch''),
       passport_authenticate = (\<lambda>strategy opts r. Next),
       passport_authorize = (\<lambda>strategy opts r. Next),
       multer_single = (\<lambda>field r. Next),
       express_static = (\<lambda>r. Next)\<rparr>
     routes \<lparr>req_method = GET, path = ''/api/auth/github/callback'', user = None\<rparr> \<lparr>returnTo = Some ''/api/account''\<rparr> =
     Respond (Redirect ''/api/account'') \<and>
   dispatch
     \<lparr>lusca_csrf = (\<lambda>r. Raise ''CSRF token mismatch''),
       passport_authenticate = (\<lambda>strategy opts r. Next),
       passport_authorize = (\<lambda>strategy opts r. Next),
       multer_single = (\<lambda>field r. Next),
       express_static = (\<lambda>r. Next)\<rparr>
     routes \<lparr>req_method = GET, path = ''/api/auth/github/callback'', user = None\<rparr> \<lparr>returnTo = None\<rparr> =
     Respond (Redirect ''/api/'')"
  using
    sign_in_callback_redirect [of "''github''" "\<lparr>req_method = GET, path = ''/api/auth/github/callback'', user = None\<rparr>"
     "\<lparr>lusca_csrf = (\<lambda>r. Raise ''CSRF token mismatch''),
       passport_authenticate = (\<lambda>strategy opts r. Next),
       passport_authorize = (\<lambda>strategy opts r. Next),
       multer_single = (\<lambda>field r. Next),
       express_static = (\<lambda>r. Next)\<rparr>"
     "\<lparr>returnTo = Some ''/api/account''\<rparr>" None "\<lparr>returnTo = None\<rparr>"]
    sign_in_callback_redirect [of "''github''" "\<lparr>req_method = GET, path = ''/api/auth/github/callback'', user = None\<rparr>"
     "\<lparr>lusca_csrf = (\<lambda>r. Raise ''CSRF token mismatch''),
       passport_authenticate = (\<lambda>strategy opts r. Next),
       passport_authorize = (\<lambda>strategy opts r. Next),
       multer_single = (\<lambda>field r. Next),
       express_static = (\<lambda>r. Next)\<rparr>"
     "\<lparr>returnTo = None\<rparr>" None "\<lparr>returnTo = None\<rparr>"]
  by simp

text \<open>
  C10: of the four authorization-only callbacks, those of Foursquare, Tumblr and Pinterest
  answer a successful authorization by a redirect to the provider's demonstration path,
  whatever the session holds; the Steam callback alone redirects to
  \<^verbatim>\<open>session.returnTo\<close>, or to \<^verbatim>\<open>/api/\<close> when that is absent or empty.
\<close>

theorem authorization_callback_redirects:
  assumes "req_method req = GET"
  shows "(path req = ''/api/auth/foursquare/callback'' \<and>
          passport_authorize x ''foursquare'' [(''failureRedirect'', [''/api/api''])] req = Next \<longrightarrow>
            dispatch x routes req s = Respond (Redirect ''/api/api/foursquare'')) \<and>
         (path req = ''/api/auth/tumblr/callback'' \<and>
          passport_authorize x ''tumblr'' [(''failureRedirect'', [''/api/api''])] req = Next \<longrightarrow>
            dispatch x routes req s = Respond (Redirect ''/api/api/tumblr'')) \<and>
         (path req = ''/api/auth/pinterest/callback'' \<and>
          passport_authorize x ''pinterest'' [(''failureRedirect'', [''/api/login''])] req = Next \<longrightarrow>
            dispatch x routes req s = Respond (Redirect ''/api/api/pinterest'')) \<and>
         (path req = ''/api/auth/steam/callback'' \<and>
          passport_authorize x ''openid'' [(''failureRedirect'', [''/api/login''])] req = Next \<longrightarrow>
            dispatch x routes req s = Respond (Redirect (js_or (returnTo s) ''/api/'')) \<and>
            (\<forall>t. returnTo s = Some t \<and> t \<noteq> [] \<longrightarrow>
               dispatch x routes req s = Respond (Redirect t)) \<and>
            (returnTo s = None \<or> returnTo s = Some [] \<longrightarrow>
               dispatch x routes req s = Respond (Redirect ''/api/''))) \<and>
         filter (\<lambda>(m, p, hs). RedirectReturnTo \<in> set hs) authorization_routes =
           [(GET, ''/api/auth/steam/callback'',
             [PassportAuthorize ''openid'' [(''failureRedirect'', [''/api/login''])],
              RedirectReturnTo])]"
proof -
  have "dispatch x routes req s = Respond (Redirect ''/api/api/foursquare'')"
    if "path req = ''/api/auth/foursquare/callback''"
      and "passport_authorize x ''foursquare'' [(''failureRedirect'', [''/api/api''])] req = Next"
    using assms that by (rule foursquare_callback_dispatch)
  moreover have "dispatch x routes req s = Respond (Redirect ''/api/api/tumblr'')"
    if "path req = ''/api/auth/tumblr/callback''"
      and "passport_authorize x ''tumblr'' [(''failureRedirect'', [''/api/api''])] req = Next"
    using assms that by (rule tumblr_callback_dispatch)
  moreover have "dispatch x routes req s = Respond (Redirect ''/api/api/pinterest'')"
    if "path req = ''/api/auth/pinterest/callback''"
      and "passport_authorize x ''pinterest'' [(''failureRedirect'', [''/api/login''])] req = Next"
    using assms that by (rule pinterest_callback_dispatch)
  moreover have "dispatch x routes req s = Respond (Redirect (js_or (returnTo s) ''/api/''))"
    if "path req = ''/api/auth/steam/callback''"
      and "passport_authorize x ''openid'' [(''failureRedirect'', [''/api/login''])] req = Next"
    using assms that by (rule steam_callback_dispatch)
  ultimately show ?thesis
    using redirect_returnTo_cases [of s "''/api/''"] returnTo_redirects_in_authorization_routes
    by auto
qed

theorem authorization_callback_redirects_witness:
  "dispatch
     \<lparr>lusca_csrf = (\<lambda>r. Raise ''CSRF token mismatch''),
       passport_authenticate = (\<lambda>strategy opts r. Next),
       passport_authorize = (\<lambda>strategy opts r. Next),
       multer_single = (\<lambda>field r. Next),
       express_static = (\<lambda>r. Next)\<rparr>
     routes \<lparr>req_method = GET, path = ''/api/auth/foursquare/callback'', user = None\<rparr> \<lparr>returnTo = Some ''/api/account''\<rparr> =
     Respond (Redirect ''/api/api/foursquare'') \<and>
   dispatch
     \<lparr>lusca_csrf = (\<lambda>r. Raise ''CSRF token mismatch''),
       passport_authenticate = (\<lambda>strategy opts r. Next),
       passport_authorize = (\<lambda>strategy opts r. Next),
       multer_single = (\<lambda>field r. Next),
       express_static = (\<lambda>r. Next)\<rparr>
     routes \<lparr>req_method = GET, path = ''/api/auth/steam/callback'', user = None\<rparr> \<lparr>returnTo = Some ''/api/account''\<rparr> =
     Respond (Redirect ''/api/account'')"
  using
    authorization_callback_redirects [of "\<lparr>req_method = GET, path = ''/api/auth/foursquare/callback'', user = None\<rparr>"
     "\<lparr>lusca_csrf = (\<lambda>r. Raise ''CSRF token mismatch''),
       passport_authenticate = (\<lambda>strategy opts r. Next),
       passport_authorize = (\<lambda>strategy opts r. Next),
       multer_single = (\<lambda>field r. Next),
       express_static = (\<lambda>r. Next)\<rparr>"
     "\<lparr>returnTo = Some ''/api/account''\<rparr>"]
    authorization_callback_redirects [of "\<lparr>req_method = GET, path = ''/api/auth/steam/callback'', user = None\<rparr>"
     "\<lparr>lusca_csrf = (\<lambda>r. Raise ''CSRF token mismatch''),
       passport_authenticate = (\<lambda>strategy opts r. Next),
       passport_authorize = (\<lambda>strategy opts r. Next),
       multer_single = (\<lambda>field r. Next),
       express_static = (\<lambda>r. Next)\<rparr>"
     "\<lparr>returnTo = Some ''/api/account''\<rparr>"]
  by simp

section \<open>Gated provider routes\<close>

text \<open>
  C5: for each of the nine providers with a gated demonstration endpoint (Steam,
  Foursquare, Tumblr, Facebook, GitHub, Twitter, LinkedIn, Instagram, Pinterest), every
  route of the table that the path \<^verbatim>\<open>/api/api/<provider>\<close> matches lists
  \<^verbatim>\<open>isAuthenticated\<close>, then \<^verbatim>\<open>isAuthorized\<close>, then a function of the api controller.  A
  request to that path without a principal, or with a principal that holds no valid token
  for the service, never reaches a controller function; where a route is registered for
  its method (\<^verbatim>\<open>GET\<close> for all nine, \<^verbatim>\<open>POST\<close> for Twitter and Pinterest) the answer is the
  diversion of a gate.
\<close>

theorem provider_routes_gated:
  assumes "provider \<in> set [''steam'', ''foursquare'', ''tumblr'', ''facebook'', ''github'',
             ''twitter'', ''linkedin'', ''instagram'', ''pinterest'']"
      and "path req = ''/api/api/'' @ provider"
      and "user req = None \<or> (\<exists>u. user req = Some u \<and> \<not> token_for u (path req))"
  shows "(\<forall>(m, p, hs) \<in> set routes. path_matches p (path req) \<longrightarrow>
            (\<exists>c. hs = [IsAuthenticated, IsAuthorized, Controller ''api'' c])) \<and>
         (\<exists>hs. (GET, path req, hs) \<in> set routes) \<and>
         (\<forall>m f. dispatch x routes req s \<noteq> Respond (Handled m f)) \<and>
         ((\<exists>hs. (req_method req, path req, hs) \<in> set routes) \<longrightarrow>
            dispatch x routes req s =
              Respond (GateDiverted
                (if user req = None then ''isAuthenticated'' else ''isAuthorized'')))"
proof -
  have table: "\<forall>(m, p, hs) \<in> set routes. path_matches p (path req) \<longrightarrow>
      (\<exists>c. hs = [IsAuthenticated, IsAuthorized, Controller ''api'' c])"
    using gated_table [OF assms(1)] assms(2) by simp
  have registered: "\<exists>hs. (GET, path req, hs) \<in> set routes"
    using gated_get_registered [OF assms(1)] assms(2) by simp
  have d: "dispatch x routes req s =
      (if \<exists>r \<in> set routes. route_matches r req
       then Respond (GateDiverted
              (if user req = None then ''isAuthenticated'' else ''isAuthorized''))
       else Next)"
    using assms(3) table by (rule gated_dispatch)
  have never: "\<forall>m f. dispatch x routes req s \<noteq> Respond (Handled m f)"
    by (simp add: d)
  have "dispatch x routes req s =
      Respond (GateDiverted (if user req = None then ''isAuthenticated'' else ''isAuthorized''))"
    if "(req_method req, path req, hs) \<in> set routes" for hs
  proof -
    have "path_matches (path req) (path req)"
      using gated_path_matches_itself [OF assms(1)] assms(2) by simp
    then have "route_matches (req_method req, path req, hs) req"
      by simp
    with that have "\<exists>r \<in> set routes. route_matches r req"
      by blast
    then show ?thesis
      by (simp add: d)
  qed
  with table registered never show ?thesis
    by blast
qed

theorem provider_routes_gated_witness:
  "dispatch
     \<lparr>lusca_csrf = (\<lambda>r. Raise ''CSRF token mismatch''),
       passport_authenticate = (\<lambda>strategy opts r. Next),
       passport_authorize = (\<lambda>strategy opts r. Next),
       multer_single = (\<lambda>field r. Next),
       express_static = (\<lambda>r. Next)\<rparr>
     routes \<lparr>req_method = GET, path = ''/api/api/steam'', user = None\<rparr> \<lparr>returnTo = None\<rparr> =
     Respond (GateDiverted ''isAuthenticated'') \<and>
   dispatch
     \<lparr>lusca_csrf = (\<lambda>r. Raise ''CSRF token mismatch''),
       passport_authenticate = (\<lambda>strategy opts r. Next),
       passport_authorize = (\<lambda>strategy opts r. Next),
       multer_single = (\<lambda>field r. Next),
       express_static = (\<lambda>r. Next)\<rparr>
     routes \<lparr>req_method = GET, path = ''/api/api/steam'', user = Some \<lparr>token_for = (\<lambda>p. False)\<rparr>\<rparr>
     \<lparr>returnTo = None\<rparr> =
     Respond (GateDiverted ''isAuthorized'')"
proof -
  have a: "(GET, ''/api/api/steam'', [IsAuthenticated, IsAuthorized, Controller ''api'' ''getSteam''])
      \<in> set routes"
    by (simp add: route_table)
  show ?thesis
    using a
      provider_routes_gated [of "''steam''" "\<lparr>req_method = GET, path = ''/api/api/steam'', user = None\<rparr>"
       "\<lparr>lusca_csrf = (\<lambda>r. Raise ''CSRF token mismatch''),
       passport_authenticate = (\<lambda>strategy opts r. Next),
       passport_authorize = (\<lambda>strategy opts r. Next),
       multer_single = (\<lambda>field r. Next),
       express_static = (\<lambda>r. Next)\<rparr>"
       "\<lparr>returnTo = None\<rparr>"]
      provider_routes_gated [of "''steam''"
       "\<lparr>req_method = GET, path = ''/api/api/steam'', user = Some \<lparr>token_for = (\<lambda>p. False)\<rparr>\<rparr>"
       "\<lparr>lusca_csrf = (\<lambda>r. Raise ''CSRF token mismatch''),
       passport_authenticate = (\<lambda>strategy opts r. Next),
       passport_authorize = (\<lambda>strategy opts r. Next),
       multer_single = (\<lambda>field r. Next),
       express_static = (\<lambda>r. Next)\<rparr>"
       "\<lparr>returnTo = None\<rparr>"]
    by auto
qed

section \<open>Connecting to MongoDB\<close>

text \<open>
  C7: when the start-up block finds the connection not open, it calls
  \<^verbatim>\<open>mongoose.connect\<close> once and registers its listener.  When the connection then emits
  \<^verbatim>\<open>error\<close>, the error and the explanatory line are written to the console and the
  process exits; no further call to \<^verbatim>\<open>mongoose.connect\<close> is made, and a later error event
  finds the process gone.
\<close>

theorem mongodb_connection_error_fatal:
  assumes "readyState p \<noteq> 1" and "\<not> exited p"
  shows "connects (connect_to_mongodb p) =
           connects p @ [js_or_undefined (env p ''MONGODB_URI'') (env p ''MONGOLAB_URI'')] \<and>
         console (emit_error err (connect_to_mongodb p)) =
           console p @
             [ConsoleError err,
              ConsoleLog ''%s MongoDB connection error. Please make sure MongoDB is running.''
                [ChalkRed ballot_x]] \<and>
         exited (emit_error err (connect_to_mongodb p)) \<and>
         connects (emit_error err (connect_to_mongodb p)) = connects (connect_to_mongodb p) \<and>
         emit_error err' (emit_error err (connect_to_mongodb p)) =
           emit_error err (connect_to_mongodb p)"
proof -
  let ?q = "connect_to_mongodb p"
  have q: "\<not> exited ?q" "error_listeners ?q \<noteq> []"
    using assms by (simp_all add: connect_to_mongodb_def)
  have e: "emit_error err ?q = on_connection_error err ?q"
    unfolding emit_error_def using q by (rule fold_listeners_first)
  have c: "connects ?q =
      connects p @ [js_or_undefined (env p ''MONGODB_URI'') (env p ''MONGOLAB_URI'')]"
    and l: "console ?q = console p"
    using assms by (simp_all add: connect_to_mongodb_def)
  have x: "exited (emit_error err ?q)"
    by (simp add: e exited_on_connection_error)
  have r: "emit_error err' (emit_error err ?q) = emit_error err ?q"
    unfolding emit_error_def [of err'] using x by (rule fold_listeners_exited)
  have "console (emit_error err ?q) =
      console p @
        [ConsoleError err,
         ConsoleLog ''%s MongoDB connection error. Please make sure MongoDB is running.''
           [ChalkRed ballot_x]]"
    by (simp add: e on_connection_error_def l)
  moreover have "connects (emit_error err ?q) = connects ?q"
    by (simp add: e on_connection_error_def)
  ultimately show ?thesis
    using c x r by blast
qed

theorem mongodb_connection_error_fatal_witness:
  "console (emit_error ''ECONNREFUSED'' (connect_to_mongodb
       \<lparr>env = Map.empty, readyState = 0, connects = [], error_listeners = [],
          console = [], exited = False\<rparr>)) =
     [ConsoleError ''ECONNREFUSED'',
      ConsoleLog ''%s MongoDB connection error. Please make sure MongoDB is running.''
        [ChalkRed ballot_x]] \<and>
   exited (emit_error ''ECONNREFUSED'' (connect_to_mongodb
       \<lparr>env = Map.empty, readyState = 0, connects = [], error_listeners = [],
          console = [], exited = False\<rparr>)) \<and>
   connects (emit_error ''ECONNREFUSED'' (connect_to_mongodb
       \<lparr>env = Map.empty, readyState = 0, connects = [], error_listeners = [],
          console = [], exited = False\<rparr>)) = [None]"
  using mongodb_connection_error_fatal
    [of "\<lparr>env = Map.empty, readyState = 0, connects = [], error_listeners = [],
          console = [], exited = False\<rparr>"
     "''ECONNREFUSED''"]
  by simp

end
